theory Spec2Isabelle
  imports Main
begin

section \<open>Values carried by frames and requests\<close>

text \<open>
  The gateway speaks JSON.  A decoded frame or response is a Python value built from
  \<open>None\<close>, booleans, integers, strings, lists and dicts; a dict is kept as an association
  list read with \<open>map_of\<close>.
\<close>

datatype json =
    JNull
  | JBool bool
  | JInt int
  | JStr string
  | JList "json list"
  | JObj "(string \<times> json) list"

text \<open>Python truthiness, as used by \<open>bool(...)\<close>, \<open>not x\<close> and \<open>x or y\<close>.\<close>

fun truthy :: "json \<Rightarrow> bool" where
  "truthy JNull = False"
| "truthy (JBool b) = b"
| "truthy (JInt i) = (i \<noteq> 0)"
| "truthy (JStr s) = (s \<noteq> [])"
| "truthy (JList xs) = (xs \<noteq> [])"
| "truthy (JObj kvs) = (kvs \<noteq> [])"

section \<open>ConnectionStatus\<close>

text \<open>
  \<open>class ConnectionStatus\<close> of \<open>connection.py\<close>.  The field \<open>session_key\<close> is annotated
  \<open>Optional[str]\<close>; what is stored there is the value found under \<open>data["session"]\<close> of a
  decoded frame, so the field holds a JSON value and Python's \<open>None\<close> is \<open>JNull\<close>.
\<close>

record ConnectionStatus =
  session_key :: json
  alive :: bool
  connected :: bool

definition init_status :: ConnectionStatus where
  "init_status = \<lparr>session_key = JNull, alive = False, connected = False\<rparr>"

text \<open>
  \<open>update(session_key=..., connected=None, alive=None)\<close>.  The first argument is \<open>None\<close>
  when the caller leaves the default \<open>...\<close>, and \<open>Some k\<close> when it passes \<open>k\<close> (which may be
  \<open>JNull\<close>); the two others are \<open>None\<close> when left out.  The three \<open>if\<close>s run in the order of
  the source.  \<open>self.frame\<close> and \<open>self.notify\<close> belong to the base class of the
  \<open>graia.amnesia\<close> library: they wake the tasks that wait on the status and assign none of
  the three fields.
\<close>

definition update ::
  "json option \<Rightarrow> bool option \<Rightarrow> bool option \<Rightarrow> ConnectionStatus \<Rightarrow> ConnectionStatus" where
  "update sk c a s =
     (let s1 = (case sk of None \<Rightarrow> s
                | Some k \<Rightarrow> s\<lparr>session_key := k, connected := (k \<noteq> JNull)\<rparr>);
          s2 = (case c of None \<Rightarrow> s1 | Some b \<Rightarrow> s1\<lparr>connected := b\<rparr>);
          s3 = (case a of None \<Rightarrow> s2 | Some b \<Rightarrow> s2\<lparr>alive := b\<rparr>)
      in s3)"

definition available :: "ConnectionStatus \<Rightarrow> bool" where
  "available s = (connected s \<and> truthy (session_key s) \<and> alive s)"

text \<open>One call of \<open>update\<close> with its three arguments, and a sequence of calls.\<close>

type_synonym upd = "json option \<times> bool option \<times> bool option"

fun apply_upd :: "upd \<Rightarrow> ConnectionStatus \<Rightarrow> ConnectionStatus" where
  "apply_upd (sk, c, a) s = update sk c a s"

definition run_updates :: "ConnectionStatus \<Rightarrow> upd list \<Rightarrow> ConnectionStatus" where
  "run_updates s us = foldl (\<lambda>t u. apply_upd u t) s us"

text \<open>The values of the annotated type \<open>Optional[str]\<close>.\<close>

fun optional_str :: "json \<Rightarrow> bool" where
  "optional_str JNull = True"
| "optional_str (JStr s) = True"
| "optional_str (JBool b) = False"
| "optional_str (JInt i) = False"
| "optional_str (JList xs) = False"
| "optional_str (JObj kvs) = False"

definition upd_typed :: "upd \<Rightarrow> bool" where
  "upd_typed u = (case fst u of None \<Rightarrow> True | Some k \<Rightarrow> optional_str k)"

section \<open>Errors and outcomes\<close>

text \<open>
  The exceptions that the modelled code raises or lets through.  \<open>ProtocolError\<close> carries
  the gateway's code and message; \<open>OtherError\<close> stands for an exception raised by a
  collaborator (transport, decoder, callback).
\<close>

datatype error =
    ProtocolError int json
  | NotImplementedError string
  | AssertionError
  | TypeError
  | KeyError
  | AttributeError
  | InvalidStateError
  | OtherError string

text \<open>
  A coroutine either returns, raises, or is still suspended at an \<open>await\<close> when the
  finite script of what its environment does is used up.
\<close>

datatype 'a outcome = Returned 'a | Raised error | Suspended

datatype log_entry =
    LogSuccess string
  | LogWarning json
  | LogDebug string
  | LogException error

section \<open>Python operations on decoded values\<close>

fun starts_with :: "string \<Rightarrow> string \<Rightarrow> bool" where
  "starts_with [] ys = True"
| "starts_with (x # xs) [] = False"
| "starts_with (x # xs) (y # ys) = (x = y \<and> starts_with xs ys)"

text \<open>\<open>contains_str xs ys\<close>: the string \<open>xs\<close> occurs in \<open>ys\<close> (Python's \<open>xs in ys\<close> on strings).\<close>

fun contains_str :: "string \<Rightarrow> string \<Rightarrow> bool" where
  "contains_str xs [] = (xs = [])"
| "contains_str xs (y # ys) = (starts_with xs (y # ys) \<or> contains_str xs ys)"

text \<open>
  \<open>k in v\<close> for a string literal \<open>k\<close>: key membership in a dict, substring test in a
  string, element test in a list, \<open>TypeError\<close> on \<open>None\<close>, booleans and integers.
\<close>

fun py_in :: "string \<Rightarrow> json \<Rightarrow> error + bool" where
  "py_in k (JObj kvs) = Inr (map_of kvs k \<noteq> None)"
| "py_in k (JStr s) = Inr (contains_str k s)"
| "py_in k (JList xs) = Inr (JStr k \<in> set xs)"
| "py_in k JNull = Inl TypeError"
| "py_in k (JBool b) = Inl TypeError"
| "py_in k (JInt i) = Inl TypeError"

text \<open>\<open>v[k]\<close> for a string \<open>k\<close>: \<open>KeyError\<close> on a dict without the key, \<open>TypeError\<close> elsewhere.\<close>

fun py_getitem :: "json \<Rightarrow> string \<Rightarrow> error + json" where
  "py_getitem (JObj kvs) k = (case map_of kvs k of None \<Rightarrow> Inl KeyError | Some v \<Rightarrow> Inr v)"
| "py_getitem JNull k = Inl TypeError"
| "py_getitem (JBool b) k = Inl TypeError"
| "py_getitem (JInt i) k = Inl TypeError"
| "py_getitem (JStr s) k = Inl TypeError"
| "py_getitem (JList xs) k = Inl TypeError"

text \<open>\<open>d.get(k, default)\<close> on a dict.\<close>

definition dict_get :: "(string \<times> json) list \<Rightarrow> string \<Rightarrow> json \<Rightarrow> json" where
  "dict_get kvs k d = (case map_of kvs k of None \<Rightarrow> d | Some v \<Rightarrow> v)"

text \<open>\<open>params or {}\<close> for an \<open>Optional[dict]\<close>.\<close>

definition or_empty :: "json option \<Rightarrow> json" where
  "or_empty p = (case p of None \<Rightarrow> JObj [] | Some v \<Rightarrow> if truthy v then v else JObj [])"

text \<open>
  Modelled from the spec: \<open>validate_response\<close> of \<open>connection/util.py\<close> is not among the
  sources.  The spec (4.2 step 1, section 7): a payload that carries a nonzero error code
  raises a protocol error derived from the code and the message instead of being treated
  as data; anything else is handed back as it is.
\<close>

definition validate_response :: "json \<Rightarrow> error + json" where
  "validate_response v =
     (case v of
        JObj kvs \<Rightarrow>
          (case map_of kvs ''code'' of
             Some (JInt c) \<Rightarrow>
               if c \<noteq> 0 then Inl (ProtocolError c (dict_get kvs ''message'' JNull)) else Inr v
           | _ \<Rightarrow> Inr v)
      | _ \<Rightarrow> Inr v)"

section \<open>Events, callbacks and the collaborators outside the sources\<close>

text \<open>
  Modelled from the spec: \<open>MiraiEvent\<close> of \<open>graia/ariadne/event\<close> is not among the sources.
  The spec (section 3): an event is a tagged payload decoded from a frame.
\<close>

datatype MiraiEvent = MiraiEvent json

text \<open>
  A registered callback: a name to tell callbacks apart, and what awaiting it on an event
  gives (\<open>None\<close> when it completes, \<open>Some e\<close> when it raises \<open>e\<close>).  Callbacks are taken not
  to touch the connection they are registered on.
\<close>

record callback =
  cb_name :: nat
  cb_run :: "MiraiEvent \<Rightarrow> error option"

text \<open>
  What the modelled code calls and the sources do not contain:
  \<open>build_event\<close> of \<open>connection/util.py\<close>; the code of the protocol error that the class
  \<open>InvalidSession\<close> of \<open>graia/ariadne/exception\<close> stands for; the construction of
  aiohttp's \<open>FormData\<close> from a dict (lines 286 to 289 of \<open>request\<close>); Python's \<open>repr\<close> of a
  string.
\<close>

record externals =
  build_event :: "json \<Rightarrow> error + MiraiEvent"
  invalid_session_code :: int
  form_data :: "json \<Rightarrow> error + json"
  repr_str :: "string \<Rightarrow> string"

text \<open>\<open>except InvalidSession\<close> catches exactly the protocol error of that code.\<close>

fun is_InvalidSession :: "externals \<Rightarrow> error \<Rightarrow> bool" where
  "is_InvalidSession X (ProtocolError c m) = (c = invalid_session_code X)"
| "is_InvalidSession X (NotImplementedError m) = False"
| "is_InvalidSession X AssertionError = False"
| "is_InvalidSession X TypeError = False"
| "is_InvalidSession X KeyError = False"
| "is_InvalidSession X AttributeError = False"
| "is_InvalidSession X InvalidStateError = False"
| "is_InvalidSession X (OtherError m) = False"

text \<open>
  \<open>await asyncio.gather(*(callback(event) for callback in callbacks))\<close>: every callback is
  started on the event; the awaiting task gets the first exception, if any (taken in
  list order here, the scheduler decides among several).
\<close>

definition gather :: "callback list \<Rightarrow> MiraiEvent \<Rightarrow> error option" where
  "gather cbs ev =
     (case List.map_filter (\<lambda>cb. cb_run cb ev) cbs of [] \<Rightarrow> None | e # es \<Rightarrow> Some e)"

section \<open>ConnectionMixin\<close>

text \<open>
  The state shared by the four connection classes.  \<open>class_name\<close> is
  \<open>self.__class__.__name__\<close>.  Two fields record effects on the outside of the
  connection: \<open>delivered\<close> lists the callback invocations (callback name, event) in order,
  \<open>logged\<close> the calls of the logger.  \<open>config\<close> and \<open>http_interface\<close> appear in the classes
  that read them.
\<close>

record 'fb ConnectionMixin =
  class_name :: string
  status :: ConnectionStatus
  fallback :: "'fb option"
  event_callbacks :: "callback list"
  delivered :: "(nat \<times> MiraiEvent) list"
  logged :: "log_entry list"

text \<open>
  \<open>build_event(data)\<close> followed by the \<open>gather\<close> over the callbacks, as in lines 154-155,
  262-263 and 345-346.
\<close>

definition fan_out :: "callback list \<Rightarrow> MiraiEvent \<Rightarrow> (nat \<times> MiraiEvent) list" where
  "fan_out cbs ev = map (\<lambda>cb. (cb_name cb, ev)) cbs"

definition dispatch_event ::
  "externals \<Rightarrow> json \<Rightarrow> ('fb, 'm) ConnectionMixin_scheme
     \<Rightarrow> error option \<times> ('fb, 'm) ConnectionMixin_scheme" where
  "dispatch_event X data c =
     (case build_event X data of
        Inl e \<Rightarrow> (Some e, c)
      | Inr ev \<Rightarrow>
          (gather (event_callbacks c) ev,
           c\<lparr>delivered := delivered c @ fan_out (event_callbacks c) ev\<rparr>))"

text \<open>\<open>__repr__\<close> of the status and of a connection.\<close>

definition py_bool :: "bool \<Rightarrow> string" where
  "py_bool b = (if b then ''True'' else ''False'')"

fun show_nat :: "nat \<Rightarrow> string" where
  "show_nat n =
     (if n < 10 then [''0123456789'' ! n]
      else show_nat (n div 10) @ [''0123456789'' ! (n mod 10)])"

declare show_nat.simps [simp del]

definition repr_status :: "ConnectionStatus \<Rightarrow> string" where
  "repr_status s =
     ''<ConnectionStatus connected='' @ py_bool (connected s) @
     '' alive='' @ py_bool (alive s) @
     '' verified='' @ py_bool (session_key s \<noteq> JNull) @ ''>''"

definition repr_connection :: "('fb, 'm) ConnectionMixin_scheme \<Rightarrow> string" where
  "repr_connection c =
     ''<'' @ class_name c @ '' '' @ repr_status (status c) @ '' with '' @
     show_nat (length (event_callbacks c)) @ '' callbacks>''"

section \<open>HttpClientConnection\<close>

datatype CallMethod = GET | POST | RESTGET | RESTPOST | MULTIPART

text \<open>
  \<open>HttpClientConfig\<close> of \<open>connection/config.py\<close> is not among the sources; the code reads
  \<open>account\<close>, \<open>verify_key\<close> and \<open>get_url\<close> from it.
\<close>

record HttpClientConfig =
  account :: int
  verify_key :: string
  get_url :: "string \<Rightarrow> string"

text \<open>What is handed to \<open>http_interface.request\<close>.\<close>

record http_request =
  rq_method :: string
  rq_url :: string
  rq_params :: "json option"
  rq_data :: "json option"
  rq_json :: "json option"

text \<open>What comes back: a decoded body, or an exception of the transport or the decoder.\<close>

datatype reply = Reply json | Failure error

text \<open>
  \<open>http_interface\<close> is the gateway seen through aiohttp: the answers it will give to the
  next requests, in order.  \<open>requests\<close> lists the requests sent so far.  The class inherits
  a \<open>fallback\<close> attribute that none of its methods reads.
\<close>

record HttpClientConnection = "unit ConnectionMixin" +
  config :: HttpClientConfig
  http_interface :: "reply list"
  requests :: "http_request list"

text \<open>
  \<open>request\<close>, lines 277 to 293.  A non-empty dict passed as \<open>data\<close> is turned into a form
  first.  With no answer left the request is sent and the task stays suspended.
\<close>

definition request ::
  "externals \<Rightarrow> string \<Rightarrow> string \<Rightarrow> json option \<Rightarrow> json option \<Rightarrow> json option
     \<Rightarrow> HttpClientConnection \<Rightarrow> json outcome \<times> HttpClientConnection" where
  "request X m url params data js c =
     (case (case data of
              Some (JObj kvs) \<Rightarrow>
                if kvs \<noteq> [] then map_sum id Some (form_data X (JObj kvs)) else Inr data
            | _ \<Rightarrow> Inr data) of
        Inl e \<Rightarrow> (Raised e, c)
      | Inr data1 \<Rightarrow>
          (let rq = \<lparr>rq_method = m, rq_url = url, rq_params = params,
                     rq_data = data1, rq_json = js\<rparr>;
               c1 = c\<lparr>requests := requests c @ [rq]\<rparr>
           in case http_interface c of
                [] \<Rightarrow> (Suspended, c1)
              | Failure e # rs \<Rightarrow> (Raised e, c1\<lparr>http_interface := rs\<rparr>)
              | Reply result # rs \<Rightarrow>
                  (case validate_response result of
                     Inl e \<Rightarrow> (Raised e, c1\<lparr>http_interface := rs\<rparr>)
                   | Inr v \<Rightarrow> (Returned v, c1\<lparr>http_interface := rs\<rparr>))))"

definition verify_request :: "HttpClientConfig \<Rightarrow> http_request" where
  "verify_request cfg =
     \<lparr>rq_method = ''POST'', rq_url = get_url cfg ''verify'', rq_params = None,
      rq_data = None, rq_json = Some (JObj [(''verifyKey'', JStr (verify_key cfg))])\<rparr>"

definition bind_request :: "HttpClientConfig \<Rightarrow> json \<Rightarrow> http_request" where
  "bind_request cfg sk =
     \<lparr>rq_method = ''POST'', rq_url = get_url cfg ''bind'', rq_params = None,
      rq_data = None,
      rq_json = Some (JObj [(''qq'', JInt (account cfg)), (''sessionKey'', sk)])\<rparr>"

definition fetch_request :: "HttpClientConfig \<Rightarrow> json \<Rightarrow> http_request" where
  "fetch_request cfg sk =
     \<lparr>rq_method = ''GET'', rq_url = get_url cfg ''fetchMessage'',
      rq_params = Some (JObj [(''sessionKey'', sk), (''count'', JInt 10)]),
      rq_data = None, rq_json = None\<rparr>"

text \<open>Sending a request that was put together beforehand.\<close>

definition send_request ::
  "externals \<Rightarrow> http_request \<Rightarrow> HttpClientConnection \<Rightarrow> json outcome \<times> HttpClientConnection" where
  "send_request X rq c =
     request X (rq_method rq) (rq_url rq) (rq_params rq) (rq_data rq) (rq_json rq) c"

text \<open>\<open>http_auth\<close>, lines 295 to 307: verify, read the key, bind, store the key.\<close>

definition http_auth ::
  "externals \<Rightarrow> HttpClientConnection \<Rightarrow> unit outcome \<times> HttpClientConnection" where
  "http_auth X c =
     (case send_request X (verify_request (config c)) c of
        (Raised e, c1) \<Rightarrow> (Raised e, c1)
      | (Suspended, c1) \<Rightarrow> (Suspended, c1)
      | (Returned data, c1) \<Rightarrow>
          (case py_getitem data ''session'' of
             Inl e \<Rightarrow> (Raised e, c1)
           | Inr sk \<Rightarrow>
               (case send_request X (bind_request (config c1) sk) c1 of
                  (Raised e, c2) \<Rightarrow> (Raised e, c2)
                | (Suspended, c2) \<Rightarrow> (Suspended, c2)
                | (Returned b, c2) \<Rightarrow>
                    (Returned (), c2\<lparr>status := update (Some sk) None None (status c2)\<rparr>))))"

text \<open>
  The loop \<open>while not self.status.connected: await self.status.wait_for_update()\<close>.  The
  list holds the updates that other tasks make to the status while this one waits; each
  turn of the loop sees the next one.  The result tells whether the loop was left, and
  gives the updates not consumed.
\<close>

fun wait_connected ::
  "upd list \<Rightarrow> HttpClientConnection \<Rightarrow> bool \<times> upd list \<times> HttpClientConnection" where
  "wait_connected [] c = (connected (status c), [], c)"
| "wait_connected (u # us) c =
     (if connected (status c) then (True, u # us, c)
      else wait_connected us
             (c\<lparr>status := apply_upd u (status c), logged := logged c @ [LogDebug ''Got update'']\<rparr>))"

text \<open>\<open>command.replace("_", "/")\<close>.\<close>

definition replace_underscore :: "string \<Rightarrow> string" where
  "replace_underscore s = map (\<lambda>ch. if ch = CHR ''_'' then CHR ''/'' else ch) s"

text \<open>The request that \<open>call\<close> builds for a call kind, lines 318 to 323.\<close>

fun call_request :: "HttpClientConfig \<Rightarrow> CallMethod \<Rightarrow> string \<Rightarrow> json \<Rightarrow> http_request" where
  "call_request cfg GET cmd p =
     \<lparr>rq_method = ''GET'', rq_url = get_url cfg cmd, rq_params = Some p,
      rq_data = None, rq_json = None\<rparr>"
| "call_request cfg RESTGET cmd p =
     \<lparr>rq_method = ''GET'', rq_url = get_url cfg cmd, rq_params = Some p,
      rq_data = None, rq_json = None\<rparr>"
| "call_request cfg POST cmd p =
     \<lparr>rq_method = ''POST'', rq_url = get_url cfg cmd, rq_params = None,
      rq_data = None, rq_json = Some p\<rparr>"
| "call_request cfg RESTPOST cmd p =
     \<lparr>rq_method = ''POST'', rq_url = get_url cfg cmd, rq_params = None,
      rq_data = None, rq_json = Some p\<rparr>"
| "call_request cfg MULTIPART cmd p =
     \<lparr>rq_method = ''POST'', rq_url = get_url cfg cmd, rq_params = None,
      rq_data = Some p, rq_json = None\<rparr>"

text \<open>The \<open>try\<close> block of \<open>call\<close> with its \<open>except InvalidSession\<close> handler.\<close>

definition guarded_request ::
  "externals \<Rightarrow> http_request \<Rightarrow> HttpClientConnection \<Rightarrow> json outcome \<times> HttpClientConnection" where
  "guarded_request X rq c =
     (case send_request X rq c of
        (Raised e, c1) \<Rightarrow>
          (if is_InvalidSession X e
           then (Raised e, c1\<lparr>status := update (Some JNull) None None (status c1)\<rparr>)
           else (Raised e, c1))
      | (Suspended, c1) \<Rightarrow> (Suspended, c1)
      | (Returned v, c1) \<Rightarrow> (Returned v, c1))"

text \<open>\<open>HttpClientConnection.call\<close>, lines 309 to 326.\<close>

definition http_call ::
  "externals \<Rightarrow> CallMethod \<Rightarrow> string \<Rightarrow> json option \<Rightarrow> upd list \<Rightarrow> HttpClientConnection
     \<Rightarrow> json outcome \<times> HttpClientConnection" where
  "http_call X method command params us c =
     (let p = or_empty params;
          cmd = replace_underscore command
      in case wait_connected us c of
           (False, us1, c1) \<Rightarrow> (Suspended, c1)
         | (True, us1, c1) \<Rightarrow>
             (if \<not> truthy (session_key (status c1))
              then (case http_auth X c1 of
                      (Raised e, c2) \<Rightarrow> (Raised e, c2)
                    | (Suspended, c2) \<Rightarrow> (Suspended, c2)
                    | (Returned u, c2) \<Rightarrow>
                        guarded_request X (call_request (config c2) method cmd p) c2)
              else guarded_request X (call_request (config c1) method cmd p) c1))"

text \<open>The \<open>for\<close> loop over the fetched items, lines 344 to 346.\<close>

fun dispatch_all ::
  "externals \<Rightarrow> json list \<Rightarrow> ('fb, 'm) ConnectionMixin_scheme
     \<Rightarrow> error option \<times> ('fb, 'm) ConnectionMixin_scheme" where
  "dispatch_all X [] c = (None, c)"
| "dispatch_all X (d # ds) c =
     (case dispatch_event X d c of
        (Some e, c1) \<Rightarrow> (Some e, c1)
      | (None, c1) \<Rightarrow> dispatch_all X ds c1)"

text \<open>
  The \<open>while self.status.connected\<close> loop of \<open>mainline\<close> with the \<open>update(alive=False)\<close> that
  follows it, lines 335 to 347.  Each element of the list is one turn: the updates that
  other tasks make to the status while this one sleeps.  With the list used up and the
  status still connected the loop is still running.
\<close>

fun poll_loop ::
  "externals \<Rightarrow> upd list list \<Rightarrow> HttpClientConnection \<Rightarrow> unit outcome \<times> HttpClientConnection" where
  "poll_loop X [] c =
     (if connected (status c) then (Suspended, c)
      else (Returned (), c\<lparr>status := update None None (Some False) (status c)\<rparr>))"
| "poll_loop X (t # ts) c =
     (if \<not> connected (status c)
      then (Returned (), c\<lparr>status := update None None (Some False) (status c)\<rparr>)
      else
        (let c1 = c\<lparr>status := run_updates (status c) t\<rparr>
         in case send_request X (fetch_request (config c1) (session_key (status c1))) c1 of
              (Raised e, c2) \<Rightarrow> (Raised e, c2)
            | (Suspended, c2) \<Rightarrow> (Suspended, c2)
            | (Returned data, c2) \<Rightarrow>
                (let c3 = c2\<lparr>status := update None None (Some True) (status c2)\<rparr>
                 in case data of
                      JList evs \<Rightarrow>
                        (case dispatch_all X evs c3 of
                           (Some e, c4) \<Rightarrow> (Raised e, c4)
                         | (None, c4) \<Rightarrow> poll_loop X ts c4)
                    | _ \<Rightarrow> (Raised AssertionError, c3))))"

text \<open>\<open>HttpClientConnection.mainline\<close>, lines 328 to 347.\<close>

definition http_mainline ::
  "externals \<Rightarrow> upd list list \<Rightarrow> HttpClientConnection \<Rightarrow> unit outcome \<times> HttpClientConnection" where
  "http_mainline X ts c =
     (case http_auth X c of
        (Raised e, c1) \<Rightarrow>
          (Returned (),
           c1\<lparr>status := update (Some JNull) None None (status c1),
              logged := logged c1 @ [LogException e]\<rparr>)
      | (Suspended, c1) \<Rightarrow> (Suspended, c1)
      | (Returned u, c1) \<Rightarrow> poll_loop X ts c1)"

section \<open>ConnectionMixin.call\<close>

text \<open>
  Lines 115 to 120.  \<open>us\<close> is handed to the fallback's \<open>call\<close>: the updates made to the
  fallback's status while that call waits.
\<close>

definition unsupported_message :: "externals \<Rightarrow> string \<Rightarrow> string \<Rightarrow> string" where
  "unsupported_message X conn command =
     ''Connection '' @ conn @ '' can't perform '' @ repr_str X command @
     '', consider configuring a HttpClientConnection?''"

definition call ::
  "externals \<Rightarrow> CallMethod \<Rightarrow> string \<Rightarrow> json option \<Rightarrow> upd list
     \<Rightarrow> (HttpClientConnection, 'm) ConnectionMixin_scheme
     \<Rightarrow> json outcome \<times> (HttpClientConnection, 'm) ConnectionMixin_scheme" where
  "call X method command params us c =
     (case fallback c of
        Some fb \<Rightarrow>
          (case http_call X method command params us fb of
             (r, fb1) \<Rightarrow> (r, c\<lparr>fallback := Some fb1\<rparr>))
      | None \<Rightarrow>
          (Raised (NotImplementedError (unsupported_message X (repr_connection c) command)), c))"

section \<open>WebsocketConnectionMixin\<close>

text \<open>An \<open>asyncio.Future\<close>: pending, done with a result, or done with an exception.\<close>

datatype future = Pending | Done json | Failed error

text \<open>
  The two socket classes share this state.  \<open>ws_io\<close> is \<open>None\<close> while the attribute does not
  exist, and otherwise holds the envelopes sent on the channel so far.  \<open>futures\<close> is the
  pending-call map, keyed by token.  The map is a \<open>WeakValueDictionary\<close>: the runtime drops
  an entry once nothing else refers to its future; that is no step of this code and is
  not part of the model, which shows what the code itself does to the map.
\<close>

record WebsocketConnection = "HttpClientConnection ConnectionMixin" +
  ws_io :: "json list option"
  futures :: "string \<rightharpoonup> future"

text \<open>
  \<open>sync_id in self.futures\<close>: a list or a dict is unhashable; a string is looked up;
  anything else is no key of the map.
\<close>

fun future_key :: "json \<Rightarrow> error + string option" where
  "future_key (JStr s) = Inr (Some s)"
| "future_key (JList xs) = Inl TypeError"
| "future_key (JObj kvs) = Inl TypeError"
| "future_key JNull = Inr None"
| "future_key (JBool b) = Inr None"
| "future_key (JInt i) = Inr None"

text \<open>Lines 150 to 157: resolve a pending call, or dispatch an event, or log and drop.\<close>

definition resolve_or_dispatch ::
  "externals \<Rightarrow> string option \<Rightarrow> json \<Rightarrow> WebsocketConnection
     \<Rightarrow> error option \<times> WebsocketConnection" where
  "resolve_or_dispatch X key data c =
     (case (case key of None \<Rightarrow> None
            | Some tok \<Rightarrow> map_option (Pair tok) (futures c tok)) of
        Some (tok, fut) \<Rightarrow>
          (if fut = Pending then (None, c\<lparr>futures := (futures c)(tok \<mapsto> Done data)\<rparr>)
           else (Some InvalidStateError, c))
      | None \<Rightarrow>
          (case py_in ''type'' data of
             Inl e \<Rightarrow> (Some e, c)
           | Inr b \<Rightarrow>
               if b then dispatch_event X data
                           (c\<lparr>status := update None None (Some True) (status c)\<rparr>)
               else (None, c\<lparr>logged := logged c @ [LogWarning data]\<rparr>)))"

text \<open>Lines 146 to 157, on the validated \<open>data\<close>.\<close>

definition received_data ::
  "externals \<Rightarrow> json \<Rightarrow> json \<Rightarrow> WebsocketConnection \<Rightarrow> error option \<times> WebsocketConnection" where
  "received_data X sync_id data c =
     (case py_in ''session'' data of
        Inl e \<Rightarrow> (Some e, c)
      | Inr b \<Rightarrow>
          if b then
            (case py_getitem data ''session'' of
               Inl e \<Rightarrow> (Some e, c)
             | Inr k \<Rightarrow>
                 (None, c\<lparr>status := update (Some k) None None (status c),
                           logged := logged c @ [LogSuccess ''Successfully got session key'']\<rparr>))
          else
            (case future_key sync_id of
               Inl e \<Rightarrow> (Some e, c)
             | Inr key \<Rightarrow> resolve_or_dispatch X key data c))"

text \<open>
  The handler of \<open>WebsocketReceivedEvent\<close>, lines 136 to 157, on the decoded frame.  The
  result is the exception that leaves the handler, if any, and the connection after it.
\<close>

definition received ::
  "externals \<Rightarrow> json \<Rightarrow> WebsocketConnection \<Rightarrow> error option \<times> WebsocketConnection" where
  "received X raw c =
     (case raw of
        JObj kvs \<Rightarrow>
          (case (if map_of kvs ''code'' \<noteq> None then validate_response raw else Inr raw) of
             Inl e \<Rightarrow> (Some e, c)
           | Inr r \<Rightarrow>
               (case validate_response (dict_get kvs ''data'' JNull) of
                  Inl e \<Rightarrow> (Some e, c)
                | Inr data \<Rightarrow> received_data X (dict_get kvs ''syncId'' (JStr ''#'')) data c))
      | _ \<Rightarrow> (Some AssertionError, c))"

text \<open>
  The handler of \<open>WebsocketCloseEvent\<close>, lines 159 to 162.  \<open>del self.ws_io\<close> raises
  \<open>AttributeError\<close> when the attribute does not exist.
\<close>

definition closed :: "WebsocketConnection \<Rightarrow> error option \<times> WebsocketConnection" where
  "closed c =
     (case ws_io c of
        None \<Rightarrow> (Some AttributeError, c)
      | Some sent \<Rightarrow>
          (None, c\<lparr>ws_io := None,
                    status := update (Some JNull) None (Some False) (status c)\<rparr>))"

text \<open>
  What happens on the channel while a call is suspended: frames arrive and the channel
  may close.  The transport runs the handler; an exception that leaves a handler does
  not reach the suspended call.
\<close>

datatype ws_event = Received json | Closed

fun handle :: "externals \<Rightarrow> ws_event \<Rightarrow> WebsocketConnection \<Rightarrow> WebsocketConnection" where
  "handle X (Received raw) c = snd (received X raw c)"
| "handle X Closed c = snd (closed c)"

text \<open>
  A suspended call resumes once \<open>ready\<close> holds of the connection; until then the events
  of the list are handled one by one.  The result tells whether it resumed.
\<close>

fun run_until ::
  "(WebsocketConnection \<Rightarrow> bool) \<Rightarrow> externals \<Rightarrow> ws_event list \<Rightarrow> WebsocketConnection
     \<Rightarrow> bool \<times> ws_event list \<times> WebsocketConnection" where
  "run_until ready X [] c = (ready c, [], c)"
| "run_until ready X (e # es) c =
     (if ready c then (True, e # es, c) else run_until ready X es (handle X e c))"

text \<open>The \<open>subCommand\<close> entry of the envelope, or the refusal, lines 169 to 174.\<close>

fun sub_command :: "CallMethod \<Rightarrow> error + (string \<times> json) list" where
  "sub_command RESTGET = Inr [(''subCommand'', JStr ''get'')]"
| "sub_command RESTPOST = Inr [(''subCommand'', JStr ''update'')]"
| "sub_command MULTIPART =
     Inl (NotImplementedError ''Please hook HttpClientConnection for multipart operation'')"
| "sub_command GET = Inr []"
| "sub_command POST = Inr []"

text \<open>
  \<open>WebsocketConnectionMixin.call\<close>, lines 164 to 178.  \<open>tok\<close> is the value of
  \<open>secrets.token_urlsafe(12)\<close>; \<open>es\<close> is what happens on the channel while the call is
  suspended.  The future the call awaits is found under its token.
\<close>

definition ws_call ::
  "externals \<Rightarrow> string \<Rightarrow> CallMethod \<Rightarrow> string \<Rightarrow> json option \<Rightarrow> ws_event list
     \<Rightarrow> WebsocketConnection \<Rightarrow> json outcome \<times> WebsocketConnection" where
  "ws_call X tok method command params es c =
     (let p = or_empty params;
          content = [(''syncId'', JStr tok), (''command'', JStr command),
                     (''content'', or_empty (Some p))]
      in case sub_command method of
           Inl e \<Rightarrow> (Raised e, c)
         | Inr sub \<Rightarrow>
             (case run_until (\<lambda>d. available (status d)) X es
                     (c\<lparr>futures := (futures c)(tok \<mapsto> Pending)\<rparr>) of
                (False, es1, c1) \<Rightarrow> (Suspended, c1)
              | (True, es1, c1) \<Rightarrow>
                  (case ws_io c1 of
                     None \<Rightarrow> (Raised AttributeError, c1)
                   | Some sent \<Rightarrow>
                       (case run_until (\<lambda>d. futures d tok \<noteq> Some Pending) X es1
                               (c1\<lparr>ws_io := Some (sent @ [JObj (content @ sub)])\<rparr>) of
                          (False, es2, c2) \<Rightarrow> (Suspended, c2)
                        | (True, es2, c2) \<Rightarrow>
                            (case futures c2 tok of
                               Some (Done v) \<Rightarrow> (Returned v, c2)
                             | Some (Failed e) \<Rightarrow> (Raised e, c2)
                             | _ \<Rightarrow> (Suspended, c2))))))"

section \<open>Concrete connections\<close>

text \<open>
  Collaborators and connections on which the theorems below are run: events are decoded
  as they are, code 3 is the rejected session, forms are passed through, and a string is
  quoted with single quotes.
\<close>

definition example_externals :: externals where
  "example_externals =
     \<lparr>build_event = (\<lambda>d. Inr (MiraiEvent d)), invalid_session_code = 3,
      form_data = Inr, repr_str = (\<lambda>s. [CHR 0x27] @ s @ [CHR 0x27])\<rparr>"

definition example_callback :: callback where
  "example_callback = \<lparr>cb_name = 0, cb_run = (\<lambda>ev. None)\<rparr>"

text \<open>A socket connection after its handshake, with one call pending under \<open>t1\<close>.\<close>

definition example_socket :: WebsocketConnection where
  "example_socket =
     \<lparr>class_name = ''WebsocketClientConnection'',
      status = \<lparr>session_key = JStr ''K'', alive = True, connected = True\<rparr>,
      fallback = None, event_callbacks = [example_callback], delivered = [], logged = [],
      ws_io = Some [], futures = [''t1'' \<mapsto> Pending]\<rparr>"

text \<open>Frames for the pending call: an error, a handshake acknowledgment, a result.\<close>

definition error_frame :: json where
  "error_frame =
     JObj [(''code'', JInt 5), (''message'', JStr ''no''), (''syncId'', JStr ''t1'')]"

definition session_frame :: json where
  "session_frame =
     JObj [(''syncId'', JStr ''t1''),
           (''data'', JObj [(''code'', JInt 0), (''session'', JStr ''S'')])]"

definition result_frame :: json where
  "result_frame =
     JObj [(''syncId'', JStr ''t1''),
           (''data'', JObj [(''code'', JInt 0), (''msg'', JStr ''ok'')])]"

text \<open>A polling connection before its handshake.\<close>

definition example_config :: HttpClientConfig where
  "example_config =
     \<lparr>account = 10001, verify_key = ''secret'', get_url = (\<lambda>r. ''http://gateway/'' @ r)\<rparr>"

definition example_client :: HttpClientConnection where
  "example_client =
     \<lparr>class_name = ''HttpClientConnection'', status = init_status, fallback = None,
      event_callbacks = [example_callback], delivered = [], logged = [],
      config = example_config, http_interface = [], requests = []\<rparr>"

text \<open>
  The polling connection after a handshake with key \<open>K1\<close>.  The gateway will reject the
  next request as an invalid session, and would then accept a new handshake with key
  \<open>K2\<close> and answer a request.
\<close>

definition ready_client :: HttpClientConnection where
  "ready_client =
     example_client
       \<lparr>status := \<lparr>session_key = JStr ''K1'', alive = True, connected = True\<rparr>,
        http_interface :=
          [Reply (JObj [(''code'', JInt 3), (''message'', JStr ''invalid session'')]),
           Reply (JObj [(''code'', JInt 0), (''session'', JStr ''K2'')]),
           Reply (JObj [(''code'', JInt 0)]),
           Reply (JObj [(''code'', JInt 0), (''data'', JList [])])]\<rparr>"

text \<open>A passive HTTP connection, which has the \<open>call\<close> of \<open>ConnectionMixin\<close>.\<close>

definition example_server :: "HttpClientConnection ConnectionMixin" where
  "example_server =
     \<lparr>class_name = ''HttpServerConnection'', status = init_status, fallback = None,
      event_callbacks = [example_callback], delivered = [], logged = []\<rparr>"

text \<open>That connection after a call which the gateway rejected.\<close>

definition rejected_client :: HttpClientConnection where
  "rejected_client =
     snd (http_call example_externals GET ''friendList'' None [] ready_client)"

text \<open>
  A polling connection whose gateway accepts the handshake with key \<open>K1\<close> and answers
  two fetches, the first with one event; and one whose gateway cannot be reached.
\<close>

definition polling_client :: HttpClientConnection where
  "polling_client =
     example_client
       \<lparr>http_interface :=
          [Reply (JObj [(''code'', JInt 0), (''session'', JStr ''K1'')]),
           Reply (JObj [(''code'', JInt 0)]),
           Reply (JList [JObj [(''type'', JStr ''FriendMessage'')]]),
           Reply (JList [])]\<rparr>"

definition unreachable_client :: HttpClientConnection where
  "unreachable_client =
     example_client\<lparr>http_interface := [Failure (OtherError ''timeout'')]\<rparr>"

section \<open>The status record\<close>

lemma update_session_key:
  "session_key (update sk c a s) = (case sk of None \<Rightarrow> session_key s | Some k \<Rightarrow> k)"
  by (simp add: update_def Let_def split: option.splits)

lemma update_alive:
  "alive (update sk c a s) = (case a of None \<Rightarrow> alive s | Some b \<Rightarrow> b)"
  by (simp add: update_def Let_def split: option.splits)

lemma update_connected:
  "connected (update sk c a s) =
     (case c of Some b \<Rightarrow> b
      | None \<Rightarrow> (case sk of None \<Rightarrow> connected s | Some k \<Rightarrow> k \<noteq> JNull))"
  by (simp add: update_def Let_def split: option.splits)


lemma run_updates_Nil: "run_updates s [] = s"
  by (simp add: run_updates_def)

lemma run_updates_Cons: "run_updates s (u # us) = run_updates (apply_upd u s) us"
  by (simp add: run_updates_def)

lemma apply_upd_typed:
  "optional_str (session_key s) \<Longrightarrow> upd_typed u \<Longrightarrow> optional_str (session_key (apply_upd u s))"
  by (cases u) (simp add: upd_typed_def update_session_key split: option.splits)

lemma run_updates_typed:
  "optional_str (session_key s) \<Longrightarrow> list_all upd_typed us
     \<Longrightarrow> optional_str (session_key (run_updates s us))"
proof (induction us arbitrary: s)
  case Nil
  then show ?case by (simp add: run_updates_Nil)
next
  case (Cons u us)
  from Cons.prems have "optional_str (session_key (apply_upd u s))"
    by (simp add: apply_upd_typed)
  with Cons show ?case by (simp add: run_updates_Cons)
qed

lemma truthy_optional_str:
  "optional_str k \<Longrightarrow> truthy k = (k \<noteq> JNull \<and> k \<noteq> JStr [])"
  by (cases k) simp_all

text \<open>
  C1, as the code has it.  \<open>available\<close> reads the truth value of the session key, so an
  empty key counts as absent: whatever the status was and whatever sequence of \<open>update\<close>
  calls with keys of type \<open>Optional[str]\<close> is made, after the last call (hence after each
  call) \<open>available\<close> equals: connected, and alive, and the session key is neither \<open>None\<close>
  nor the empty string.
\<close>

theorem available_after_updates:
  assumes "optional_str (session_key s)" and "list_all upd_typed us"
  shows "available (run_updates s us) =
           (connected (run_updates s us) \<and> alive (run_updates s us) \<and>
            session_key (run_updates s us) \<noteq> JNull \<and>
            session_key (run_updates s us) \<noteq> JStr [])"
proof -
  have "optional_str (session_key (run_updates s us))"
    using assms by (rule run_updates_typed)
  then show ?thesis
    by (auto simp: available_def truthy_optional_str)
qed

theorem available_after_updates_witness:
  "available (run_updates init_status [(Some (JStr ''K''), None, None), (None, None, Some True)])
   \<and> \<not> available (run_updates init_status [(Some (JStr ''K''), None, None)])"
proof -
  have t: "optional_str (session_key init_status)"
    by (simp add: init_status_def)
  have a: "list_all upd_typed [(Some (JStr ''K''), None, None), (None, None, Some True)]"
    by (simp add: upd_typed_def)
  have b: "list_all upd_typed [(Some (JStr ''K''), None, None)]"
    by (simp add: upd_typed_def)
  show ?thesis
    using available_after_updates [OF t a] available_after_updates [OF t b]
    by (simp add: run_updates_def update_def init_status_def)
qed

text \<open>
  C1 as stated fails on an empty session key: after \<open>update(session_key="")\<close> and
  \<open>update(alive=True)\<close> the status is connected and alive and its key is not \<open>None\<close>, and
  \<open>available\<close> is false.
\<close>

theorem available_empty_key_counterexample:
  "available (run_updates init_status [(Some (JStr []), None, None), (None, None, Some True)])
   \<noteq> (connected (run_updates init_status [(Some (JStr []), None, None), (None, None, Some True)])
      \<and> alive (run_updates init_status [(Some (JStr []), None, None), (None, None, Some True)])
      \<and> session_key (run_updates init_status [(Some (JStr []), None, None), (None, None, Some True)])
          \<noteq> JNull)"
  by (simp add: run_updates_def update_def init_status_def available_def)

text \<open>
  C8, as the code has it.  After \<open>update\<close>: the session key is the one supplied, or the
  previous one when the argument is left out; \<open>alive\<close> likewise; \<open>connected\<close> is the
  \<open>connected\<close> argument when that is supplied, otherwise "the key is not \<open>None\<close>" when a key
  is supplied, otherwise its previous value.
\<close>

theorem update_fields:
  "session_key (update sk c a s) = (case sk of None \<Rightarrow> session_key s | Some k \<Rightarrow> k)
   \<and> alive (update sk c a s) = (case a of None \<Rightarrow> alive s | Some b \<Rightarrow> b)
   \<and> connected (update sk c a s) =
       (case c of Some b \<Rightarrow> b
        | None \<Rightarrow> (case sk of None \<Rightarrow> connected s | Some k \<Rightarrow> k \<noteq> JNull))"
  by (simp add: update_session_key update_alive update_connected)

theorem update_fields_witness:
  "connected (update (Some (JStr ''K'')) None None init_status)
   \<and> \<not> connected (update (Some JNull) None None (update (Some (JStr ''K'')) None None init_status))
   \<and> alive (update (Some JNull) None None (update None None (Some True) init_status))"
  using update_fields [of "Some (JStr ''K'')" None None init_status]
    update_fields [of "Some JNull" None None "update (Some (JStr ''K'')) None None init_status"]
    update_fields [of "Some JNull" None None "update None None (Some True) init_status"]
    update_fields [of None None "Some True" init_status]
  by simp

text \<open>
  C8 as stated fails when both a key and \<open>connected\<close> are supplied:
  \<open>update(session_key="K", connected=False)\<close> leaves \<open>connected\<close> false although the key
  is not \<open>None\<close>.
\<close>

theorem update_connected_counterexample:
  "\<not> connected (update (Some (JStr ''K'')) (Some False) None init_status)
   \<and> JStr ''K'' \<noteq> JNull"
  by (simp add: update_def)

section \<open>The socket connection's handlers\<close>

text \<open>
  C2, as the code has it.  When the channel closes, the close handler drops the channel
  and calls \<open>update(session_key=None, alive=False)\<close>: the session key becomes \<open>None\<close>,
  \<open>alive\<close> becomes false, and \<open>connected\<close> becomes false as well, since \<open>update\<close> sets it
  from the key it is given.  The pending-call map is left as it is.
\<close>

theorem closed_effect:
  assumes "ws_io c = Some sent"
  shows "fst (closed c) = None
         \<and> session_key (status (snd (closed c))) = JNull
         \<and> \<not> alive (status (snd (closed c)))
         \<and> \<not> connected (status (snd (closed c)))
         \<and> ws_io (snd (closed c)) = None
         \<and> futures (snd (closed c)) = futures c"
  using assms by (simp add: closed_def update_def)

theorem closed_effect_witness:
  "ws_io example_socket = Some []
   \<and> connected (status example_socket)
   \<and> \<not> connected (status (snd (closed example_socket)))
   \<and> session_key (status (snd (closed example_socket))) = JNull"
proof -
  have h: "ws_io example_socket = Some []"
    by (simp add: example_socket_def)
  show ?thesis
    using h closed_effect [OF h] by (simp add: example_socket_def)
qed

text \<open>
  C2 as stated fails: a connection that is connected when its channel closes is no
  longer connected after the close handler.
\<close>

theorem closed_connected_counterexample:
  "connected (status example_socket)
   \<and> connected (status (snd (closed example_socket))) \<noteq> connected (status example_socket)"
  by (simp add: closed_def example_socket_def update_def)

lemma validate_code:
  "map_of kvs ''code'' = Some (JInt n) \<Longrightarrow> n \<noteq> 0 \<Longrightarrow>
   validate_response (JObj kvs) = Inl (ProtocolError n (dict_get kvs ''message'' JNull))"
  by (simp add: validate_response_def)

text \<open>
  C3, as the code has it.  A frame that carries a nonzero error code, at its top level
  or in its data, makes the frame handler itself raise the protocol error of that code
  and message.  The connection is left exactly as it was: a pending call under the
  frame's token stays pending and stays in the pending-call map.
\<close>

theorem received_error_code:
  "(map_of kvs ''code'' = Some (JInt n) \<and> n \<noteq> 0 \<longrightarrow>
      received X (JObj kvs) c
        = (Some (ProtocolError n (dict_get kvs ''message'' JNull)), c))
   \<and> (validate_response (JObj kvs) = Inr (JObj kvs)
        \<and> map_of kvs ''data'' = Some (JObj dkvs)
        \<and> map_of dkvs ''code'' = Some (JInt n) \<and> n \<noteq> 0 \<longrightarrow>
        received X (JObj kvs) c
          = (Some (ProtocolError n (dict_get dkvs ''message'' JNull)), c))"
  by (simp add: received_def validate_code dict_get_def)

theorem received_error_code_witness:
  "received example_externals error_frame example_socket
     = (Some (ProtocolError 5 (JStr ''no'')), example_socket)
   \<and> received example_externals
        (JObj [(''syncId'', JStr ''t1''),
               (''data'', JObj [(''code'', JInt 5), (''message'', JStr ''no'')])])
        example_socket
     = (Some (ProtocolError 5 (JStr ''no'')), example_socket)"
  using
    received_error_code [where kvs = "[(''code'', JInt 5), (''message'', JStr ''no''),
        (''syncId'', JStr ''t1'')]" and n = 5 and X = example_externals and c = example_socket]
    received_error_code [where kvs = "[(''syncId'', JStr ''t1''),
               (''data'', JObj [(''code'', JInt 5), (''message'', JStr ''no'')])]"
      and dkvs = "[(''code'', JInt 5), (''message'', JStr ''no'')]"
      and n = 5 and X = example_externals and c = example_socket]
  by (simp add: error_frame_def dict_get_def validate_response_def)

text \<open>
  C3 as stated fails: after the error frame for token \<open>t1\<close> the entry of \<open>t1\<close> is still in
  the map and still pending, and a call that waits under \<open>t1\<close> stays suspended when that
  frame arrives.
\<close>

theorem received_error_counterexample:
  "futures (snd (received example_externals error_frame example_socket)) ''t1'' = Some Pending
   \<and> fst (ws_call example_externals ''t1'' GET ''about'' None [Received error_frame]
            (example_socket\<lparr>futures := Map.empty\<rparr>)) = Suspended"
  by (simp add: received_def validate_response_def error_frame_def example_socket_def
      ws_call_def or_empty_def available_def)

lemma received_session_eq:
  assumes "validate_response (JObj kvs) = Inr (JObj kvs)"
    and "map_of kvs ''data'' = Some (JObj dkvs)"
    and "validate_response (JObj dkvs) = Inr (JObj dkvs)"
    and "map_of dkvs ''session'' = Some (JStr S)"
  shows "received X (JObj kvs) c =
           (None, c\<lparr>status := (status c)\<lparr>session_key := JStr S, connected := True\<rparr>,
                     logged := logged c @ [LogSuccess ''Successfully got session key'']\<rparr>)"
  using assms by (simp add: received_def received_data_def dict_get_def update_def)

text \<open>
  C5.  The frame handler receives a frame that passes the error check of step 1 (neither
  the frame nor its data carries a nonzero error code) and whose data holds a session
  field with the string \<open>S\<close>.  Then the handler returns normally, the status has
  \<open>session_key = S\<close> and \<open>connected = True\<close>, no callback has been invoked and no pending call
  has been touched.
\<close>

theorem received_session:
  assumes "validate_response (JObj kvs) = Inr (JObj kvs)"
    and "map_of kvs ''data'' = Some (JObj dkvs)"
    and "validate_response (JObj dkvs) = Inr (JObj dkvs)"
    and "map_of dkvs ''session'' = Some (JStr S)"
  shows "fst (received X (JObj kvs) c) = None
         \<and> session_key (status (snd (received X (JObj kvs) c))) = JStr S
         \<and> connected (status (snd (received X (JObj kvs) c)))
         \<and> alive (status (snd (received X (JObj kvs) c))) = alive (status c)
         \<and> delivered (snd (received X (JObj kvs) c)) = delivered c
         \<and> futures (snd (received X (JObj kvs) c)) = futures c
         \<and> ws_io (snd (received X (JObj kvs) c)) = ws_io c"
  by (simp add: received_session_eq [OF assms])

theorem received_session_witness:
  "session_key (status (snd (received example_externals session_frame example_socket)))
     = JStr ''S''
   \<and> connected (status (snd (received example_externals session_frame example_socket)))
   \<and> futures (snd (received example_externals session_frame example_socket)) ''t1''
       = Some Pending
   \<and> delivered (snd (received example_externals session_frame example_socket)) = []"
proof -
  have a: "validate_response
             (JObj [(''syncId'', JStr ''t1''),
                    (''data'', JObj [(''code'', JInt 0), (''session'', JStr ''S'')])])
           = Inr (JObj [(''syncId'', JStr ''t1''),
                        (''data'', JObj [(''code'', JInt 0), (''session'', JStr ''S'')])])"
    by (simp add: validate_response_def)
  have b: "map_of [(''syncId'', JStr ''t1''),
                   (''data'', JObj [(''code'', JInt 0), (''session'', JStr ''S'')])] ''data''
           = Some (JObj [(''code'', JInt 0), (''session'', JStr ''S'')])"
    by simp
  have c: "validate_response (JObj [(''code'', JInt 0), (''session'', JStr ''S'')])
           = Inr (JObj [(''code'', JInt 0), (''session'', JStr ''S'')])"
    by (simp add: validate_response_def)
  have d: "map_of [(''code'', JInt 0), (''session'', JStr ''S'')] ''session''
           = Some (JStr ''S'')"
    by simp
  show ?thesis
    using received_session [OF a b c d, of example_externals example_socket]
    by (simp add: session_frame_def example_socket_def)
qed

section \<open>The pending-call map\<close>

lemma dispatch_event_futures:
  "futures (snd (dispatch_event X data (c::WebsocketConnection))) = futures c"
  by (simp add: dispatch_event_def split: sum.splits)

lemma resolve_or_dispatch_dom:
  "dom (futures (snd (resolve_or_dispatch X key data c))) = dom (futures c)"
  by (auto simp: resolve_or_dispatch_def dispatch_event_futures split: option.splits sum.splits)

lemma received_data_dom:
  "dom (futures (snd (received_data X sid data c))) = dom (futures c)"
  by (simp add: received_data_def resolve_or_dispatch_dom split: sum.splits)

lemma received_dom: "dom (futures (snd (received X raw c))) = dom (futures c)"
  by (simp add: received_def received_data_dom split: json.splits sum.splits)

lemma closed_futures: "futures (snd (closed c)) = futures c"
  by (simp add: closed_def split: option.splits)

lemma handle_dom: "dom (futures (handle X e c)) = dom (futures c)"
  by (cases e) (simp_all add: received_dom closed_futures)

lemma run_until_dom:
  "dom (futures (snd (snd (run_until ready X es c)))) = dom (futures c)"
  by (induction es arbitrary: c) (simp_all add: handle_dom)

lemma run_until_dom_eq:
  "run_until ready X es c = (b, es1, c1) \<Longrightarrow> dom (futures c1) = dom (futures c)"
  using run_until_dom [of ready X es c] by simp

lemma ws_call_dom:
  "dom (futures c) \<subseteq> dom (futures (snd (ws_call X tok m cmd p es c)))"
proof (cases "sub_command m")
  case (Inl e)
  then show ?thesis by (simp add: ws_call_def)
next
  case (Inr sub)
  obtain b es1 c1 where r1:
    "run_until (\<lambda>d. available (status d)) X es (c\<lparr>futures := (futures c)(tok \<mapsto> Pending)\<rparr>)
       = (b, es1, c1)"
    by (cases "run_until (\<lambda>d. available (status d)) X es
                 (c\<lparr>futures := (futures c)(tok \<mapsto> Pending)\<rparr>)") auto
  have d1: "dom (futures c1) = insert tok (dom (futures c))"
    using run_until_dom_eq [OF r1] by simp
  have sub: "dom (futures c) \<subseteq> insert tok (dom (futures c))" by blast
  show ?thesis
  proof (cases "b \<and> ws_io c1 \<noteq> None")
    case False
    then have "snd (ws_call X tok m cmd p es c) = c1"
      using Inr r1 by (cases b; cases "ws_io c1") (simp_all add: ws_call_def Let_def)
    then show ?thesis using d1 sub by simp
  next
    case True
    then obtain sent where s: "ws_io c1 = Some sent" and b: b by auto
    let ?content = "[(''syncId'', JStr tok), (''command'', JStr cmd),
                     (''content'', or_empty (Some (or_empty p)))]"
    obtain b2 es2 c2 where r2:
      "run_until (\<lambda>d. futures d tok \<noteq> Some Pending) X es1
         (c1\<lparr>ws_io := Some (sent @ [JObj (?content @ sub)])\<rparr>) = (b2, es2, c2)"
      by (cases "run_until (\<lambda>d. futures d tok \<noteq> Some Pending) X es1
         (c1\<lparr>ws_io := Some (sent @ [JObj (?content @ sub)])\<rparr>)") auto
    have d2: "dom (futures c2) = insert tok (dom (futures c))"
      using run_until_dom_eq [OF r2] d1 by simp
    have "snd (ws_call X tok m cmd p es c) = c2"
      using Inr r1 r2 s b
      by (cases b2) (simp_all add: ws_call_def Let_def split: option.splits future.splits)
    then show ?thesis using d2 sub by simp
  qed
qed

text \<open>
  C7, as the code has it.  No step of the socket connection removes an entry from the
  pending-call map: the frame handler leaves the set of tokens as it is (resolving a call
  sets the result of its future and keeps the entry), the close handler leaves the map
  untouched (there is no teardown sweep), and a call only adds its own token.  Entries
  leave the map only through the weak-value dictionary, when the runtime drops the
  future.
\<close>

theorem futures_never_removed:
  "dom (futures (snd (received X raw c))) = dom (futures c)
   \<and> futures (snd (closed c)) = futures c
   \<and> dom (futures c) \<subseteq> dom (futures (snd (ws_call X tok m cmd p es c)))"
  by (simp add: received_dom closed_futures ws_call_dom)

theorem futures_never_removed_witness:
  "dom (futures (snd (received example_externals result_frame example_socket))) = {''t1''}
   \<and> futures (snd (closed example_socket)) ''t1'' = Some Pending"
  using futures_never_removed [of example_externals result_frame example_socket
      "''t2''" GET "''about''" None "[]"]
  by (simp add: example_socket_def)

text \<open>
  C7 as stated fails: the entry of \<open>t1\<close> is still in the map after the frame handler has
  resolved it, it is still there after the close handler has run, and a call that is
  pending when the channel closes keeps its entry.
\<close>

theorem futures_kept_counterexample:
  "futures (snd (received example_externals result_frame example_socket)) ''t1''
     = Some (Done (JObj [(''code'', JInt 0), (''msg'', JStr ''ok'')]))
   \<and> futures (snd (closed (snd (received example_externals result_frame example_socket)))) ''t1''
     = Some (Done (JObj [(''code'', JInt 0), (''msg'', JStr ''ok'')]))
   \<and> futures (snd (closed example_socket)) ''t1'' = Some Pending"
  by (simp add: received_def received_data_def resolve_or_dispatch_def validate_response_def
      dict_get_def closed_def result_frame_def example_socket_def)

section \<open>Multipart calls on a socket connection\<close>

text \<open>
  C10.  A multipart call on a socket connection raises \<open>NotImplementedError\<close> and leaves
  the connection exactly as it was: nothing is registered in the pending-call map,
  nothing is sent on the channel, the status is unchanged.  The connection is arbitrary,
  so this holds with a fallback configured as well as without one.
\<close>

theorem multipart_refused:
  "ws_call X tok MULTIPART command params es c =
     (Raised (NotImplementedError ''Please hook HttpClientConnection for multipart operation''),
      c)"
  by (simp add: ws_call_def)

theorem multipart_refused_witness:
  "ws_call example_externals ''t2'' MULTIPART ''uploadImage'' None []
     (example_socket\<lparr>fallback := Some example_client\<rparr>)
   = (Raised (NotImplementedError ''Please hook HttpClientConnection for multipart operation''),
      example_socket\<lparr>fallback := Some example_client\<rparr>)"
  using multipart_refused [of example_externals "''t2''" "''uploadImage''" None "[]"
      "example_socket\<lparr>fallback := Some example_client\<rparr>"]
  by simp

section \<open>Fallback delegation\<close>

lemma starts_with_append: "starts_with xs (xs @ ys)"
  by (induction xs) auto

lemma starts_with_contains: "starts_with xs ys \<Longrightarrow> contains_str xs ys"
  by (cases ys; cases xs) auto

lemma contains_str_here: "contains_str xs (xs @ ys)"
  by (simp add: starts_with_contains starts_with_append)

lemma contains_str_append_left: "contains_str xs ys \<Longrightarrow> contains_str xs (zs @ ys)"
  by (induction zs) auto

lemma contains_str_middle: "contains_str xs (a @ xs @ b)"
  by (simp add: contains_str_append_left contains_str_here)

lemma unsupported_names_connection:
  "contains_str conn (unsupported_message X conn command)"
  unfolding unsupported_message_def by (rule contains_str_middle)

lemma unsupported_names_command:
  "contains_str (repr_str X command) (unsupported_message X conn command)"
proof -
  have "unsupported_message X conn command =
          (''Connection '' @ conn @ '' can't perform '') @ repr_str X command @
          '', consider configuring a HttpClientConnection?''"
    by (simp add: unsupported_message_def)
  then show ?thesis by (simp only: contains_str_middle)
qed

text \<open>
  C6, as the code has it.  A connection that has the \<open>call\<close> of \<open>ConnectionMixin\<close> (the
  passive HTTP connection) hands the call to its fallback when one is attached, and the
  result is the fallback's; with no fallback the call raises \<open>NotImplementedError\<close> at
  once, the connection is unchanged, and the message contains the connection's \<open>repr\<close>
  and the command's.  A socket connection has its own \<open>call\<close>, which does not delegate:
  a multipart call raises \<open>NotImplementedError\<close> at once with a fixed message that names
  the multipart operation and not the connection, and the connection is unchanged
  (nothing is registered, nothing is sent).
\<close>

theorem fallback_delegation:
  "(fallback c = Some fb \<longrightarrow>
      call X kind command params us c =
        (fst (http_call X kind command params us fb),
         c\<lparr>fallback := Some (snd (http_call X kind command params us fb))\<rparr>))
   \<and> (fallback c = None \<longrightarrow>
        call X kind command params us c =
          (Raised (NotImplementedError (unsupported_message X (repr_connection c) command)), c)
        \<and> contains_str (repr_connection c) (unsupported_message X (repr_connection c) command)
        \<and> contains_str (repr_str X command)
             (unsupported_message X (repr_connection c) command))
   \<and> ws_call X tok MULTIPART command params es d =
        (Raised (NotImplementedError
           ''Please hook HttpClientConnection for multipart operation''), d)
   \<and> contains_str ''multipart'' ''Please hook HttpClientConnection for multipart operation''"
  by (simp add: call_def ws_call_def unsupported_names_connection unsupported_names_command
      split: prod.splits)

theorem fallback_delegation_witness:
  "fst (call example_externals MULTIPART ''uploadImage'' None [] example_server)
     = Raised (NotImplementedError
         (''Connection <HttpServerConnection <ConnectionStatus connected=False alive=False '' @
          ''verified=False> with 1 callbacks> can't perform '' @ [CHR 0x27] @ ''uploadImage'' @
          [CHR 0x27] @ '', consider configuring a HttpClientConnection?''))
   \<and> fst (call example_externals GET ''friendList'' None []
            (example_server\<lparr>fallback := Some ready_client\<rparr>))
       = Raised (ProtocolError 3 (JStr ''invalid session''))
   \<and> map_option requests
        (fallback (snd (call example_externals GET ''friendList'' None []
            (example_server\<lparr>fallback := Some ready_client\<rparr>))))
       = Some [call_request example_config GET ''friendList'' (JObj [])]"
  using
    fallback_delegation [where c = example_server and X = example_externals
      and kind = MULTIPART and command = "''uploadImage''" and params = None and us = "[]"
      and tok = "''t2''" and es = "[]" and d = example_socket]
    fallback_delegation [where c = "example_server\<lparr>fallback := Some ready_client\<rparr>"
      and fb = ready_client and X = example_externals
      and kind = GET and command = "''friendList''" and params = None and us = "[]"
      and tok = "''t2''" and es = "[]" and d = example_socket]
  by (simp add: example_server_def unsupported_message_def repr_connection_def repr_status_def
      py_bool_def init_status_def show_nat.simps example_externals_def example_callback_def
      http_call_def guarded_request_def send_request_def request_def validate_response_def
      dict_get_def or_empty_def replace_underscore_def update_def ready_client_def
      example_client_def example_config_def)

text \<open>
  C6 as stated fails on a socket connection: with a fallback attached, a multipart call
  is not delegated (it raises, and the fallback is untouched), and the message of the
  error does not contain the connection.
\<close>

theorem fallback_counterexample:
  "fallback (example_socket\<lparr>fallback := Some ready_client\<rparr>) = Some ready_client
   \<and> fst (ws_call example_externals ''t2'' MULTIPART ''uploadImage'' None []
            (example_socket\<lparr>fallback := Some ready_client\<rparr>))
       = Raised (NotImplementedError ''Please hook HttpClientConnection for multipart operation'')
   \<and> fallback (snd (ws_call example_externals ''t2'' MULTIPART ''uploadImage'' None []
            (example_socket\<lparr>fallback := Some ready_client\<rparr>))) = Some ready_client
   \<and> \<not> contains_str (repr_connection (example_socket\<lparr>fallback := Some ready_client\<rparr>))
         ''Please hook HttpClientConnection for multipart operation''"
  by (simp add: ws_call_def repr_connection_def example_socket_def repr_status_def py_bool_def
      show_nat.simps)

section \<open>Calls on the polling connection\<close>

lemma wait_connected_now:
  "connected (status c) \<Longrightarrow> wait_connected us c = (True, us, c)"
  by (cases us) simp_all

lemma wait_connected_requests:
  "requests (snd (snd (wait_connected us c))) = requests c
   \<and> http_interface (snd (snd (wait_connected us c))) = http_interface c
   \<and> config (snd (snd (wait_connected us c))) = config c"
  by (induction us arbitrary: c) simp_all


lemma http_call_blocked:
  assumes "fst (wait_connected us c) = False"
  shows "fst (http_call X m cmd p us c) = Suspended
         \<and> requests (snd (http_call X m cmd p us c)) = requests c"
proof -
  obtain us1 c1 where w: "wait_connected us c = (False, us1, c1)"
    using assms by (cases "wait_connected us c") auto
  have "requests c1 = requests c"
    using wait_connected_requests [of us c] w by simp
  with w show ?thesis by (simp add: http_call_def)
qed

lemma request_sends:
  "data = None \<Longrightarrow>
   requests (snd (request X m url params data js c)) =
     requests c @ [\<lparr>rq_method = m, rq_url = url, rq_params = params, rq_data = None, rq_json = js\<rparr>]"
  by (simp add: request_def Let_def split: list.splits reply.splits sum.splits)

lemma request_prefix:
  "\<exists>rest. requests (snd (request X m url params data js c)) = requests c @ rest"
  by (simp add: request_def Let_def split: list.splits reply.splits sum.splits option.splits json.splits)

lemma request_config:
  "config (snd (request X m url params data js c)) = config c
   \<and> status (snd (request X m url params data js c)) = status c"
  by (simp add: request_def Let_def split: list.splits reply.splits sum.splits option.splits json.splits)

lemma send_request_prefix:
  "send_request X rq c = (r, c1) \<Longrightarrow> \<exists>rest. requests c1 = requests c @ rest"
  using request_prefix [of X "rq_method rq" "rq_url rq" "rq_params rq" "rq_data rq" "rq_json rq" c]
  by (simp add: send_request_def)

lemma http_auth_starts:
  "\<exists>rest. requests (snd (http_auth X c)) = requests c @ verify_request (config c) # rest"
proof -
  obtain r c1 where s1: "send_request X (verify_request (config c)) c = (r, c1)"
    by (cases "send_request X (verify_request (config c)) c") auto
  have q1: "requests c1 = requests c @ [verify_request (config c)]"
    using request_sends [of None X "rq_method (verify_request (config c))" "rq_url (verify_request (config c))"
        "rq_params (verify_request (config c))" "rq_json (verify_request (config c))" c] s1
    by (simp add: send_request_def verify_request_def)
  show ?thesis
  proof (cases r)
    case (Returned data)
    show ?thesis
    proof (cases "py_getitem data ''session''")
      case (Inl e)
      with Returned s1 q1 show ?thesis by (simp add: http_auth_def)
    next
      case (Inr sk)
      obtain r2 c2 where s2: "send_request X (bind_request (config c1) sk) c1 = (r2, c2)"
        by (cases "send_request X (bind_request (config c1) sk) c1") auto
      obtain rest where "requests c2 = requests c1 @ rest"
        using send_request_prefix [OF s2] by blast
      with Returned Inr s1 s2 q1 show ?thesis
        by (cases r2) (simp_all add: http_auth_def)
    qed
  next
    case (Raised e)
    with s1 q1 show ?thesis by (simp add: http_auth_def)
  next
    case Suspended
    with s1 q1 show ?thesis by (simp add: http_auth_def)
  qed
qed

lemma guarded_request_prefix:
  "\<exists>rest. requests (snd (guarded_request X rq c)) = requests c @ rest"
proof -
  obtain r c1 where s: "send_request X rq c = (r, c1)"
    by (cases "send_request X rq c") auto
  from send_request_prefix [OF s] obtain rest where "requests c1 = requests c @ rest" ..
  with s show ?thesis
    by (cases r) (simp_all add: guarded_request_def)
qed

lemma guarded_request_invalid:
  assumes "send_request X rq c = (Raised e, c1)" and "is_InvalidSession X e"
  shows "guarded_request X rq c =
           (Raised e, c1\<lparr>status := (status c1)\<lparr>session_key := JNull, connected := False\<rparr>\<rparr>)"
  using assms by (simp add: guarded_request_def update_def)

lemma http_call_suspended_now:
  "\<not> connected (status c) \<Longrightarrow> http_call X m cmd p [] c = (Suspended, c)"
  by (simp add: http_call_def)

lemma wait_connected_result:
  "fst (wait_connected us c) = connected (status (snd (snd (wait_connected us c))))"
  by (induction us arbitrary: c) simp_all

lemma wait_connected_frame:
  assumes "wait_connected us c = (b, us1, c1)"
  shows "requests c1 = requests c \<and> config c1 = config c \<and> connected (status c1) = b"
  using wait_connected_requests [of us c] wait_connected_result [of us c] assms by simp


text \<open>
  C4, as the code has it.  A call on the polling connection first waits until
  \<open>connected\<close> is true, taking the updates that other tasks make to the status one by
  one; while none makes it true the call stays suspended and sends nothing.  Once
  connected, it runs the handshake first when the session key is absent (\<open>None\<close> or
  empty), so that the verification request is the first one it sends; with a key present
  it sends its own request straight away.  When that request is rejected as an invalid
  session, the call clears the key, which also sets \<open>connected\<close> to false, and raises the
  rejection again; the next call on the connection therefore does not handshake by
  itself: with no update from elsewhere it stays suspended and sends nothing.
\<close>

theorem http_call_session:
  "(wait_connected us c = (False, us1, c1) \<longrightarrow>
      http_call X m cmd p us c = (Suspended, c1)
      \<and> \<not> connected (status c1) \<and> requests c1 = requests c)
   \<and> (wait_connected us c = (True, us1, c1) \<and> \<not> truthy (session_key (status c1)) \<longrightarrow>
        connected (status c1)
        \<and> (\<exists>rest. requests (snd (http_call X m cmd p us c))
                    = requests c @ verify_request (config c) # rest))
   \<and> (wait_connected us c = (True, us1, c1) \<and> truthy (session_key (status c1)) \<longrightarrow>
        connected (status c1)
        \<and> http_call X m cmd p us c =
            guarded_request X
              (call_request (config c) m (replace_underscore cmd) (or_empty p)) c1)
   \<and> (wait_connected us c = (True, us1, c1) \<and> truthy (session_key (status c1))
        \<and> send_request X (call_request (config c) m (replace_underscore cmd) (or_empty p)) c1
            = (Raised e, c2)
        \<and> is_InvalidSession X e \<longrightarrow>
        fst (http_call X m cmd p us c) = Raised e
        \<and> session_key (status (snd (http_call X m cmd p us c))) = JNull
        \<and> \<not> connected (status (snd (http_call X m cmd p us c)))
        \<and> (\<forall>m2 cmd2 p2.
              http_call X m2 cmd2 p2 [] (snd (http_call X m cmd p us c))
                = (Suspended, snd (http_call X m cmd p us c))))"
proof -
  have a: "wait_connected us c = (False, us1, c1) \<longrightarrow>
      http_call X m cmd p us c = (Suspended, c1)
      \<and> \<not> connected (status c1) \<and> requests c1 = requests c"
    using wait_connected_frame [of us c False us1 c1] by (simp add: http_call_def)
  have b: "wait_connected us c = (True, us1, c1) \<and> \<not> truthy (session_key (status c1)) \<longrightarrow>
        connected (status c1)
        \<and> (\<exists>rest. requests (snd (http_call X m cmd p us c))
                    = requests c @ verify_request (config c) # rest)"
  proof
    assume h: "wait_connected us c = (True, us1, c1) \<and> \<not> truthy (session_key (status c1))"
    then have f: "requests c1 = requests c \<and> config c1 = config c \<and> connected (status c1)"
      using wait_connected_frame [of us c True us1 c1] by simp
    obtain r c2 where au: "http_auth X c1 = (r, c2)"
      by (cases "http_auth X c1") auto
    obtain rest where q: "requests c2 = requests c @ verify_request (config c) # rest"
      using http_auth_starts [of X c1] au f by auto
    have "\<exists>rest. requests (snd (http_call X m cmd p us c))
                  = requests c @ verify_request (config c) # rest"
    proof (cases r)
      case (Returned u)
      obtain rest2 where
        "requests (snd (guarded_request X
            (call_request (config c2) m (replace_underscore cmd) (or_empty p)) c2))
          = requests c2 @ rest2"
        using guarded_request_prefix by blast
      with h au q Returned show ?thesis
        by (simp add: http_call_def)
    next
      case (Raised e)
      with h au q show ?thesis by (simp add: http_call_def)
    next
      case Suspended
      with h au q show ?thesis by (simp add: http_call_def)
    qed
    with f show "connected (status c1)
        \<and> (\<exists>rest. requests (snd (http_call X m cmd p us c))
                    = requests c @ verify_request (config c) # rest)"
      by simp
  qed
  have c: "wait_connected us c = (True, us1, c1) \<and> truthy (session_key (status c1)) \<longrightarrow>
        connected (status c1)
        \<and> http_call X m cmd p us c =
            guarded_request X
              (call_request (config c) m (replace_underscore cmd) (or_empty p)) c1"
    using wait_connected_frame [of us c True us1 c1] by (simp add: http_call_def)
  have d: "wait_connected us c = (True, us1, c1) \<and> truthy (session_key (status c1))
        \<and> send_request X (call_request (config c) m (replace_underscore cmd) (or_empty p)) c1
            = (Raised e, c2)
        \<and> is_InvalidSession X e \<longrightarrow>
        fst (http_call X m cmd p us c) = Raised e
        \<and> session_key (status (snd (http_call X m cmd p us c))) = JNull
        \<and> \<not> connected (status (snd (http_call X m cmd p us c)))
        \<and> (\<forall>m2 cmd2 p2.
              http_call X m2 cmd2 p2 [] (snd (http_call X m cmd p us c))
                = (Suspended, snd (http_call X m cmd p us c)))"
  proof
    assume h: "wait_connected us c = (True, us1, c1) \<and> truthy (session_key (status c1))
        \<and> send_request X (call_request (config c) m (replace_underscore cmd) (or_empty p)) c1
            = (Raised e, c2)
        \<and> is_InvalidSession X e"
    then have eq: "http_call X m cmd p us c =
        (Raised e, c2\<lparr>status := (status c2)\<lparr>session_key := JNull, connected := False\<rparr>\<rparr>)"
      using c guarded_request_invalid by simp
    show "fst (http_call X m cmd p us c) = Raised e
        \<and> session_key (status (snd (http_call X m cmd p us c))) = JNull
        \<and> \<not> connected (status (snd (http_call X m cmd p us c)))
        \<and> (\<forall>m2 cmd2 p2.
              http_call X m2 cmd2 p2 [] (snd (http_call X m cmd p us c))
                = (Suspended, snd (http_call X m cmd p us c)))"
      by (simp add: eq http_call_suspended_now)
  qed
  from a b c d show ?thesis by blast
qed

lemmas http_eval = http_call_def http_auth_def guarded_request_def send_request_def request_def
  validate_response_def dict_get_def or_empty_def replace_underscore_def update_def
  ready_client_def example_client_def example_config_def example_externals_def
  verify_request_def bind_request_def init_status_def


lemma rejected_client_eq:
  "rejected_client =
     ready_client
       \<lparr>status := \<lparr>session_key = JNull, alive = True, connected = False\<rparr>,
        http_interface :=
          [Reply (JObj [(''code'', JInt 0), (''session'', JStr ''K2'')]),
           Reply (JObj [(''code'', JInt 0)]),
           Reply (JObj [(''code'', JInt 0), (''data'', JList [])])],
        requests := [call_request example_config GET ''friendList'' (JObj [])]\<rparr>"
  by (simp add: rejected_client_def http_eval)

theorem http_call_session_witness:
  "fst (http_call example_externals GET ''friendList'' None [] ready_client)
     = Raised (ProtocolError 3 (JStr ''invalid session''))
   \<and> \<not> connected (status rejected_client)
   \<and> http_call example_externals GET ''friendList'' None [] rejected_client
       = (Suspended, rejected_client)
   \<and> fst (http_call example_externals GET ''friendList'' None [(None, Some True, None)]
            rejected_client)
       = Returned (JObj [(''code'', JInt 0), (''data'', JList [])])
   \<and> session_key (status (snd (http_call example_externals GET ''friendList'' None
            [(None, Some True, None)] rejected_client))) = JStr ''K2''
   \<and> requests (snd (http_call example_externals GET ''friendList'' None
            [(None, Some True, None)] rejected_client))
       = [call_request example_config GET ''friendList'' (JObj []),
          verify_request example_config, bind_request example_config (JStr ''K2''),
          call_request example_config GET ''friendList'' (JObj [])]"
  using
    http_call_session [where us = "[]" and c = ready_client and ?us1.0 = "[]"
      and ?c1.0 = ready_client and X = example_externals and m = GET
      and cmd = "''friendList''" and p = None
      and e = "ProtocolError 3 (JStr ''invalid session'')"
      and ?c2.0 = "snd (send_request example_externals
                     (call_request (config ready_client) GET
                        (replace_underscore ''friendList'') (or_empty None)) ready_client)"]
    http_call_session [where us = "[]" and c = rejected_client and ?us1.0 = "[]"
      and ?c1.0 = rejected_client and X = example_externals and m = GET
      and cmd = "''friendList''" and p = None]
    http_call_session [where us = "[(None, Some True, None)]" and c = rejected_client
      and ?us1.0 = "[]"
      and ?c1.0 = "rejected_client\<lparr>status := update None (Some True) None (status rejected_client),
                     logged := logged rejected_client @ [LogDebug ''Got update'']\<rparr>"
      and X = example_externals and m = GET and cmd = "''friendList''" and p = None]
  by (simp add: rejected_client_eq http_eval)

text \<open>
  C4 as stated fails on its last part.  The connection holds key \<open>K1\<close>; a call is
  rejected as an invalid session.  The next call does not handshake: it is suspended in
  the wait for \<open>connected\<close>, the connection is unchanged, the key is still \<open>None\<close> and the
  only request ever sent is the rejected one, although the gateway would accept a new
  handshake.
\<close>

theorem http_call_session_counterexample:
  "rejected_client = snd (http_call example_externals GET ''friendList'' None [] ready_client)
   \<and> fst (http_call example_externals GET ''friendList'' None [] ready_client)
       = Raised (ProtocolError 3 (JStr ''invalid session''))
   \<and> http_call example_externals GET ''friendList'' None [] rejected_client
       = (Suspended, rejected_client)
   \<and> session_key (status rejected_client) = JNull
   \<and> requests rejected_client = [call_request example_config GET ''friendList'' (JObj [])]
   \<and> hd (http_interface rejected_client)
       = Reply (JObj [(''code'', JInt 0), (''session'', JStr ''K2'')])"
  by (simp add: rejected_client_eq) (simp add: rejected_client_def http_eval)

section \<open>The run loop of the polling connection\<close>

lemma request_count:
  "length (requests (snd (request X m url params data js c))) \<le> Suc (length (requests c))"
  by (simp add: request_def Let_def split: list.splits reply.splits sum.splits option.splits json.splits)

lemma send_request_count:
  "send_request X rq c = (r, c1) \<Longrightarrow> length (requests c1) \<le> Suc (length (requests c))"
  using request_count [of X "rq_method rq" "rq_url rq" "rq_params rq" "rq_data rq" "rq_json rq" c]
  by (simp add: send_request_def)

lemma http_auth_count:
  "length (requests (snd (http_auth X c))) \<le> length (requests c) + 2"
proof -
  obtain r c1 where s1: "send_request X (verify_request (config c)) c = (r, c1)"
    by (cases "send_request X (verify_request (config c)) c") auto
  note n1 = send_request_count [OF s1]
  show ?thesis
  proof (cases r)
    case (Returned data)
    show ?thesis
    proof (cases "py_getitem data ''session''")
      case (Inl e)
      with Returned s1 n1 show ?thesis by (simp add: http_auth_def)
    next
      case (Inr sk)
      obtain r2 c2 where s2: "send_request X (bind_request (config c1) sk) c1 = (r2, c2)"
        by (cases "send_request X (bind_request (config c1) sk) c1") auto
      note n2 = send_request_count [OF s2]
      with Returned Inr s1 s2 n1 show ?thesis
        by (cases r2) (simp_all add: http_auth_def)
    qed
  next
    case (Raised e)
    with s1 n1 show ?thesis by (simp add: http_auth_def)
  next
    case Suspended
    with s1 n1 show ?thesis by (simp add: http_auth_def)
  qed
qed

lemma dispatch_all_ok:
  "map (build_event X) ds = map Inr evs
   \<Longrightarrow> list_all (\<lambda>ev. gather (event_callbacks c) ev = None) evs
   \<Longrightarrow> dispatch_all X ds c =
         (None, c\<lparr>delivered := delivered c @ concat (map (fan_out (event_callbacks c)) evs)\<rparr>)"
proof (induction ds arbitrary: evs c)
  case Nil
  then show ?case by simp
next
  case (Cons d ds)
  then obtain ev evs1 where e: "evs = ev # evs1" by (cases evs) auto
  with Cons.prems have b: "build_event X d = Inr ev" and m: "map (build_event X) ds = map Inr evs1"
    and g: "gather (event_callbacks c) ev = None"
    and l: "list_all (\<lambda>ev. gather (event_callbacks c) ev = None) evs1"
    by simp_all
  let ?c1 = "c\<lparr>delivered := delivered c @ fan_out (event_callbacks c) ev\<rparr>"
  have d: "dispatch_event X d c = (None, ?c1)"
    using b g by (simp add: dispatch_event_def)
  have "dispatch_all X ds ?c1 =
          (None, ?c1\<lparr>delivered := delivered ?c1 @ concat (map (fan_out (event_callbacks ?c1)) evs1)\<rparr>)"
    using Cons.IH [of evs1 ?c1] m l by simp
  with d e show ?case by simp
qed

lemma poll_loop_exit:
  "\<not> connected (status c) \<Longrightarrow>
   poll_loop X ts c = (Returned (), c\<lparr>status := (status c)\<lparr>alive := False\<rparr>\<rparr>)"
  by (cases ts) (simp_all add: update_def)

lemma poll_loop_turn:
  assumes "connected (status c)"
    and "http_interface c = Reply (JList ds) # rs"
    and "map (build_event X) ds = map Inr evs"
    and "list_all (\<lambda>ev. gather (event_callbacks c) ev = None) evs"
  shows "poll_loop X (t # ts) c =
           poll_loop X ts
             (c\<lparr>requests := requests c @
                  [fetch_request (config c) (session_key (run_updates (status c) t))],
                http_interface := rs,
                status := (run_updates (status c) t)\<lparr>alive := True\<rparr>,
                delivered := delivered c @ concat (map (fan_out (event_callbacks c)) evs)\<rparr>)"
proof -
  let ?c1 = "c\<lparr>status := run_updates (status c) t\<rparr>"
  let ?c2 = "?c1\<lparr>requests := requests c @
                  [fetch_request (config c) (session_key (run_updates (status c) t))],
                http_interface := rs\<rparr>"
  let ?c3 = "?c2\<lparr>status := update None None (Some True) (status ?c2)\<rparr>"
  have s: "send_request X (fetch_request (config ?c1) (session_key (status ?c1))) ?c1
             = (Returned (JList ds), ?c2)"
    using assms(2)
    by (simp add: send_request_def request_def fetch_request_def validate_response_def)
  have d: "dispatch_all X ds ?c3 =
             (None, ?c3\<lparr>delivered := delivered ?c3 @ concat (map (fan_out (event_callbacks ?c3)) evs)\<rparr>)"
    using dispatch_all_ok [of X ds evs ?c3] assms(3,4) by simp
  show ?thesis
    using assms(1) s d by (simp add: Let_def update_def)
qed

lemma poll_loop_returned:
  "fst (poll_loop X ts c) = Returned () \<Longrightarrow>
   \<not> alive (status (snd (poll_loop X ts c))) \<and> \<not> connected (status (snd (poll_loop X ts c)))"
proof (induction ts arbitrary: c)
  case Nil
  then show ?case by (simp add: update_alive update_connected split: if_splits)
next
  case (Cons t ts)
  show ?case
  proof (cases "connected (status c)")
    case False
    then show ?thesis by (simp add: update_alive update_connected)
  next
    case True
    then show ?thesis
      using Cons.prems Cons.IH
      by (auto simp: Let_def update_alive update_connected
          split: prod.splits outcome.splits json.splits option.splits)
  qed
qed

lemma http_mainline_failed:
  assumes "http_auth X c = (Raised e, c1)"
  shows "http_mainline X ts c =
           (Returned (),
            c1\<lparr>status := (status c1)\<lparr>session_key := JNull, connected := False\<rparr>,
               logged := logged c1 @ [LogException e]\<rparr>)
         \<and> length (requests c1) \<le> length (requests c) + 2"
  using assms http_auth_count [of X c] by (simp add: http_mainline_def update_def)

text \<open>
  C9.  The run loop of the polling connection.  If the handshake raises, the loop clears
  the session key, logs the exception and returns; the handshake has sent at most its two
  requests and nothing is sent after it (no retry, no fetch).  If the handshake returns,
  the loop proper runs.  It runs only while \<open>connected\<close> is true: found false, the loop
  sets \<open>alive\<close> to false and returns.  A turn with \<open>connected\<close> true sleeps (other tasks may
  update the status meanwhile), sends one fetch request with count 10 and the current
  key, sets \<open>alive\<close> to true and, when every item is decoded and no callback raises, hands
  each event to every callback, in order, before the next turn.  Whenever the loop
  returns, \<open>alive\<close> and \<open>connected\<close> are false.
\<close>

theorem polling_mainline:
  "(http_auth X c = (Raised e, c1) \<longrightarrow>
      http_mainline X ts c =
        (Returned (),
         c1\<lparr>status := (status c1)\<lparr>session_key := JNull, connected := False\<rparr>,
            logged := logged c1 @ [LogException e]\<rparr>)
      \<and> length (requests c1) \<le> length (requests c) + 2)
   \<and> (http_auth X c = (Returned (), c1) \<longrightarrow> http_mainline X ts c = poll_loop X ts c1)
   \<and> (\<not> connected (status d) \<longrightarrow>
        poll_loop X ts d = (Returned (), d\<lparr>status := (status d)\<lparr>alive := False\<rparr>\<rparr>))
   \<and> (connected (status d) \<and> http_interface d = Reply (JList ds) # rs
        \<and> map (build_event X) ds = map Inr evs
        \<and> list_all (\<lambda>ev. gather (event_callbacks d) ev = None) evs \<longrightarrow>
        poll_loop X (t # ts) d =
          poll_loop X ts
            (d\<lparr>requests := requests d @
                  [fetch_request (config d) (session_key (run_updates (status d) t))],
               http_interface := rs,
               status := (run_updates (status d) t)\<lparr>alive := True\<rparr>,
               delivered := delivered d @ concat (map (fan_out (event_callbacks d)) evs)\<rparr>))
   \<and> (fst (poll_loop X ts d) = Returned () \<longrightarrow>
        \<not> alive (status (snd (poll_loop X ts d)))
        \<and> \<not> connected (status (snd (poll_loop X ts d))))"
  using http_mainline_failed [of X c e c1 ts] poll_loop_exit [of d X ts]
    poll_loop_turn [of d ds rs X evs t ts] poll_loop_returned [of X ts d]
  by (simp add: http_mainline_def)

lemmas poll_eval = http_mainline_def fetch_request_def dispatch_event_def gather_def
  fan_out_def example_callback_def List.map_filter_def run_updates_def polling_client_def
  unreachable_client_def

lemma polling_auth:
  "http_auth example_externals polling_client =
     (Returned (),
      polling_client
        \<lparr>status := \<lparr>session_key = JStr ''K1'', alive = False, connected = True\<rparr>,
         http_interface :=
           [Reply (JList [JObj [(''type'', JStr ''FriendMessage'')]]), Reply (JList [])],
         requests := [verify_request example_config,
                      bind_request example_config (JStr ''K1'')]\<rparr>)"
  by (simp add: http_eval poll_eval)

lemma unreachable_auth:
  "http_auth example_externals unreachable_client =
     (Raised (OtherError ''timeout''),
      unreachable_client
        \<lparr>http_interface := [], requests := [verify_request example_config]\<rparr>)"
  by (simp add: http_eval poll_eval)

theorem polling_mainline_witness:
  "fst (http_mainline example_externals [[], [(Some JNull, None, None)]] polling_client)
     = Returned ()
   \<and> requests (snd (http_mainline example_externals [[], [(Some JNull, None, None)]]
        polling_client))
       = [verify_request example_config, bind_request example_config (JStr ''K1''),
          fetch_request example_config (JStr ''K1''), fetch_request example_config JNull]
   \<and> delivered (snd (http_mainline example_externals [[], [(Some JNull, None, None)]]
        polling_client))
       = [(0, MiraiEvent (JObj [(''type'', JStr ''FriendMessage'')]))]
   \<and> \<not> alive (status (snd (http_mainline example_externals [[], [(Some JNull, None, None)]]
        polling_client)))
   \<and> http_mainline example_externals [[]] unreachable_client
       = (Returned (),
          unreachable_client
            \<lparr>status := \<lparr>session_key = JNull, alive = False, connected = False\<rparr>,
             logged := [LogException (OtherError ''timeout'')],
             http_interface := [], requests := [verify_request example_config]\<rparr>)"
  using
    polling_mainline [where X = example_externals and c = polling_client
      and ?c1.0 = "snd (http_auth example_externals polling_client)"
      and d = "snd (http_auth example_externals polling_client)"
      and ds = "[JObj [(''type'', JStr ''FriendMessage'')]]" and rs = "[Reply (JList [])]"
      and evs = "[MiraiEvent (JObj [(''type'', JStr ''FriendMessage'')])]"
      and t = "[]" and ts = "[[(Some JNull, None, None)]]"]
    polling_mainline [where X = example_externals and c = unreachable_client
      and e = "OtherError ''timeout''"
      and ?c1.0 = "snd (http_auth example_externals unreachable_client)"
      and d = "snd (http_auth example_externals unreachable_client)" and ts = "[[]]"]
  by (simp add: polling_auth unreachable_auth)
    (simp add: http_eval poll_eval)

end
